theory Spec2Isabelle
  imports Main "HOL-Library.Word" "HOL-Library.AList"
begin

unbundle bit_operations_syntax

section \<open>Python values held by the OSC data model\<close>

text \<open>
  The module \<^verbatim>\<open>oscparser/types.py\<close> declares the OSC data model as pydantic
  classes. Each class derives from \<^verbatim>\<open>_FrozenModel\<close>, whose \<^verbatim>\<open>Config\<close> sets
  \<^verbatim>\<open>frozen = True\<close>, and declares its fields by annotation only: no class has a
  validator, a default value or a method of its own.

  The values a field can hold are modelled by \<open>pyval\<close>:
  \<^item> \<open>PyStr\<close>: a \<^verbatim>\<open>str\<close>, written as the list of its UTF-8 code units;
  \<^item> \<open>PyInt\<close>: an \<^verbatim>\<open>int\<close> (unbounded);
  \<^item> \<open>PyFloat\<close>: a \<^verbatim>\<open>float\<close>, written as its IEEE 754 binary64 bit pattern;
  \<^item> \<open>PyBytes\<close>: a \<^verbatim>\<open>bytes\<close> object;
  \<^item> \<open>PyDatetime\<close>: a naive \<^verbatim>\<open>datetime\<close>, written as its count of microseconds
    since 0001-01-01T00:00:00;
  \<^item> \<open>PyTuple\<close>: a \<^verbatim>\<open>tuple\<close>;
  \<^item> \<open>PyModel c fs\<close>: an instance of the model class named \<open>c\<close> whose field
    dictionary is \<open>fs\<close>, in insertion order.
\<close>

type_synonym byte = "8 word"

datatype pyval =
    PyStr string
  | PyInt int
  | PyFloat "64 word"
  | PyBytes "byte list"
  | PyDatetime int
  | PyTuple "pyval list"
  | PyModel string "(string \<times> pyval) list"

text \<open>
  A field annotation of \<^verbatim>\<open>types.py\<close>: \<^verbatim>\<open>str\<close>, \<^verbatim>\<open>int\<close>, \<^verbatim>\<open>float\<close>,
  \<^verbatim>\<open>bytes\<close>, \<^verbatim>\<open>datetime\<close>, a variable-length tuple \<^verbatim>\<open>tuple[X, ...]\<close>, and a
  \<^verbatim>\<open>Union\<close> of model classes (\<^verbatim>\<open>OSCArg\<close>, \<^verbatim>\<open>OSCPacket\<close>), given by the names of
  its members.
\<close>

datatype annotation =
    A_str
  | A_int
  | A_float
  | A_bytes
  | A_datetime
  | A_tuple annotation
  | A_union "string list"

text \<open>
  A class statement: its name, its base class, the \<^verbatim>\<open>frozen\<close> entry of its own
  \<^verbatim>\<open>Config\<close> (if it has one), its \<^verbatim>\<open>ClassVar\<close> attributes with their values, and
  its annotated fields in declaration order.
\<close>

record model_decl =
  cls_name :: string
  cls_base :: string
  cls_frozen :: "bool option"
  cls_vars :: "(string \<times> string) list"
  cls_fields :: "(string \<times> annotation) list"

definition OSCAtomic :: "string list" where
  "OSCAtomic =
    [''OSCInt'', ''OSCFloat'', ''OSCString'', ''OSCBlob'', ''OSCTrue'', ''OSCFalse'',
     ''OSCNil'', ''OSCInt64'', ''OSCDouble'', ''OSCTimeTag'', ''OSCChar'', ''OSCSymbol'',
     ''OSCRGBA'', ''OSCMidi'', ''OSCImpulse'']"

definition OSCArg :: "string list" where
  "OSCArg = OSCAtomic @ [''OSCArray'']"

definition OSCPacket :: "string list" where
  "OSCPacket = [''OSCMessage'', ''OSCBundle'']"

definition frozen_leaf ::
  "string \<Rightarrow> (string \<times> string) list \<Rightarrow> (string \<times> annotation) list \<Rightarrow> model_decl" where
  "frozen_leaf n vs fs =
    \<lparr>cls_name = n, cls_base = ''_FrozenModel'', cls_frozen = None,
     cls_vars = vs, cls_fields = fs\<rparr>"

text \<open>The class statements of \<^verbatim>\<open>types.py\<close>, in the order of the file.\<close>

definition types_py :: "model_decl list" where
  "types_py =
    [\<lparr>cls_name = ''_FrozenModel'', cls_base = ''BaseModel'', cls_frozen = Some True,
      cls_vars = [], cls_fields = []\<rparr>,
     frozen_leaf ''OSCInt'' [(''TAG'', ''i'')] [(''value'', A_int)],
     frozen_leaf ''OSCFloat'' [(''TAG'', ''f'')] [(''value'', A_float)],
     frozen_leaf ''OSCString'' [(''TAG'', ''s'')] [(''value'', A_str)],
     frozen_leaf ''OSCBlob'' [(''TAG'', ''b'')] [(''value'', A_bytes)],
     frozen_leaf ''OSCTrue'' [(''TAG'', ''T'')] [],
     frozen_leaf ''OSCFalse'' [(''TAG'', ''F'')] [],
     frozen_leaf ''OSCNil'' [(''TAG'', ''N'')] [],
     frozen_leaf ''OSCInt64'' [(''TAG'', ''h'')] [(''value'', A_int)],
     frozen_leaf ''OSCDouble'' [(''TAG'', ''d'')] [(''value'', A_float)],
     frozen_leaf ''OSCTimeTag'' [(''TAG'', ''t'')] [(''value'', A_datetime)],
     frozen_leaf ''OSCChar'' [(''TAG'', ''c'')] [(''value'', A_str)],
     frozen_leaf ''OSCSymbol'' [(''TAG'', ''S'')] [(''value'', A_str)],
     frozen_leaf ''OSCRGBA'' [(''TAG'', ''r'')]
       [(''r'', A_int), (''g'', A_int), (''b'', A_int), (''a'', A_int)],
     frozen_leaf ''OSCMidi'' [(''TAG'', ''m'')]
       [(''port_id'', A_int), (''status'', A_int), (''data1'', A_int), (''data2'', A_int)],
     frozen_leaf ''OSCImpulse'' [(''TAG'', ''I'')] [],
     frozen_leaf ''OSCArray'' [(''OPEN_TAG'', ''[''), (''CLOSE_TAG'', '']'')]
       [(''items'', A_tuple (A_union OSCArg))],
     frozen_leaf ''OSCMessage'' []
       [(''address'', A_str), (''args'', A_tuple (A_union OSCArg))],
     frozen_leaf ''OSCBundle'' []
       [(''timetag'', A_int), (''elements'', A_tuple (A_union OSCPacket))]]"

definition find_decl :: "string \<Rightarrow> model_decl option" where
  "find_decl c = find (\<lambda>d. cls_name d = c) types_py"

section \<open>Construction, assignment and comparison of model instances\<close>

text \<open>
  What pydantic's \<^verbatim>\<open>BaseModel\<close> does for the classes above, as far as
  \<^verbatim>\<open>types.py\<close> relies on it.

  \<^verbatim>\<open>Config\<close> is inherited: a class without a \<^verbatim>\<open>frozen\<close> entry of its own has
  its base's, and \<^verbatim>\<open>BaseModel\<close> itself is not frozen. The first argument bounds
  the walk up the chain of bases.
\<close>

datatype py_error =
    Missing_field string
  | Wrong_model string
  | Frozen_instance string
  | Class_var_assignment string
  | Unknown_model string
  | Conversion_not_modelled



text \<open>
  Validation of an input against an annotation. An input of the annotated type is
  kept as it is; an instance of a model class is accepted for a union exactly when its
  class is a member (instances are not validated again). Pydantic also converts some
  inputs of other types (an \<^verbatim>\<open>int\<close> given for a \<^verbatim>\<open>float\<close>, \<^verbatim>\<open>bytes\<close> given for a
  \<^verbatim>\<open>str\<close>, ...): these conversions are outside this model, which answers
  \<open>Conversion_not_modelled\<close> for every such input.
\<close>

fun validate :: "annotation \<Rightarrow> pyval \<Rightarrow> py_error + pyval"
  and validate_items :: "annotation \<Rightarrow> pyval list \<Rightarrow> py_error + pyval list" where
  "validate A_str (PyStr s) = Inr (PyStr s)"
| "validate A_int (PyInt i) = Inr (PyInt i)"
| "validate A_float (PyFloat w) = Inr (PyFloat w)"
| "validate A_bytes (PyBytes b) = Inr (PyBytes b)"
| "validate A_datetime (PyDatetime d) = Inr (PyDatetime d)"
| "validate (A_tuple a) (PyTuple xs) =
    (case validate_items a xs of Inl e \<Rightarrow> Inl e | Inr ys \<Rightarrow> Inr (PyTuple ys))"
| "validate (A_union cs) (PyModel c fs) =
    (if c \<in> set cs then Inr (PyModel c fs) else Inl (Wrong_model c))"
| "validate _ _ = Inl Conversion_not_modelled"
| "validate_items a [] = Inr []"
| "validate_items a (x # xs) =
    (case validate a x of
       Inl e \<Rightarrow> Inl e
     | Inr y \<Rightarrow> (case validate_items a xs of Inl e \<Rightarrow> Inl e | Inr ys \<Rightarrow> Inr (y # ys)))"

text \<open>
  \<^verbatim>\<open>Cls(**kw)\<close>: every declared field is looked up among the keyword arguments and
  validated, a missing one is an error (no field of \<^verbatim>\<open>types.py\<close> has a default), and
  keyword arguments that name no field are ignored (pydantic's default \<^verbatim>\<open>extra\<close>).
\<close>

fun build_fields ::
  "(string \<times> annotation) list \<Rightarrow> (string \<rightharpoonup> pyval) \<Rightarrow> py_error + (string \<times> pyval) list" where
  "build_fields [] kw = Inr []"
| "build_fields ((n, a) # rest) kw =
    (case kw n of
       None \<Rightarrow> Inl (Missing_field n)
     | Some v \<Rightarrow>
        (case validate a v of
           Inl e \<Rightarrow> Inl e
         | Inr v' \<Rightarrow>
            (case build_fields rest kw of
               Inl e \<Rightarrow> Inl e
             | Inr fs \<Rightarrow> Inr ((n, v') # fs))))"

definition model_new :: "string \<Rightarrow> (string \<rightharpoonup> pyval) \<Rightarrow> py_error + pyval" where
  "model_new c kw =
    (case find_decl c of
       None \<Rightarrow> Inl (Unknown_model c)
     | Some d \<Rightarrow>
        (case build_fields (cls_fields d) kw of
           Inl e \<Rightarrow> Inl e
         | Inr fs \<Rightarrow> Inr (PyModel c fs)))"



text \<open>
  \<^verbatim>\<open>obj.name\<close> for a field, and \<^verbatim>\<open>a == b\<close>. Two floats are equal when neither
  is a NaN and they are the same number (the two zeros are equal); an \<^verbatim>\<open>int\<close> and
  a \<^verbatim>\<open>float\<close> are equal when they are the same number; two tuples are equal
  item by item; two model instances are equal when they have the same class and
  their field dictionaries have the same keys with equal values. Values of
  other pairs of types are unequal. The two values compared are taken to be separate
  objects: Python answers \<^verbatim>\<open>True\<close> for an object compared with itself before it
  looks at a NaN inside.
\<close>

definition getattr :: "pyval \<Rightarrow> string \<Rightarrow> pyval option" where
  "getattr x n = (case x of PyModel c fs \<Rightarrow> map_of fs n | _ \<Rightarrow> None)"

definition float_is_nan :: "64 word \<Rightarrow> bool" where
  "float_is_nan w = (0x7FF0000000000000 < (w AND 0x7FFFFFFFFFFFFFFF))"

definition float_is_zero :: "64 word \<Rightarrow> bool" where
  "float_is_zero w = (w AND 0x7FFFFFFFFFFFFFFF = 0)"

definition float_is_finite :: "64 word \<Rightarrow> bool" where
  "float_is_finite w = (drop_bit 52 w AND 0x7FF \<noteq> 0x7FF)"

definition float_eq :: "64 word \<Rightarrow> 64 word \<Rightarrow> bool" where
  "float_eq a b =
    (\<not> float_is_nan a \<and> \<not> float_is_nan b \<and> (a = b \<or> (float_is_zero a \<and> float_is_zero b)))"

text \<open>The value of a finite float, multiplied by \<open>2 ^ 1074\<close>: an integer.\<close>

definition float_scaled :: "64 word \<Rightarrow> int" where
  "float_scaled w =
    (let e = unat (drop_bit 52 w AND 0x7FF);
         m = uint (w AND 0xFFFFFFFFFFFFF);
         mag = (if e = 0 then m else (2 ^ 52 + m) * 2 ^ (e - 1))
     in if bit w 63 then - mag else mag)"

definition int_float_eq :: "int \<Rightarrow> 64 word \<Rightarrow> bool" where
  "int_float_eq i w = (float_is_finite w \<and> i * 2 ^ 1074 = float_scaled w)"

fun py_eq :: "pyval \<Rightarrow> pyval \<Rightarrow> bool"
  and py_eq_items :: "pyval list \<Rightarrow> pyval list \<Rightarrow> bool"
  and py_eq_fields :: "(string \<times> pyval) list \<Rightarrow> (string \<times> pyval) list \<Rightarrow> bool" where
  "py_eq (PyStr a) (PyStr b) = (a = b)"
| "py_eq (PyInt a) (PyInt b) = (a = b)"
| "py_eq (PyFloat a) (PyFloat b) = float_eq a b"
| "py_eq (PyInt a) (PyFloat b) = int_float_eq a b"
| "py_eq (PyFloat a) (PyInt b) = int_float_eq b a"
| "py_eq (PyBytes a) (PyBytes b) = (a = b)"
| "py_eq (PyDatetime a) (PyDatetime b) = (a = b)"
| "py_eq (PyTuple xs) (PyTuple ys) = py_eq_items xs ys"
| "py_eq (PyModel c fs) (PyModel d gs) =
    (c = d \<and> length fs = length gs \<and> py_eq_fields fs gs)"
| "py_eq _ _ = False"
| "py_eq_items [] [] = True"
| "py_eq_items (x # xs) (y # ys) = (py_eq x y \<and> py_eq_items xs ys)"
| "py_eq_items _ _ = False"
| "py_eq_fields [] gs = True"
| "py_eq_fields ((k, v) # fs) gs =
    (case map_of gs k of
       None \<Rightarrow> False
     | Some v' \<Rightarrow> py_eq v v' \<and> py_eq_fields fs gs)"



text \<open>\<^verbatim>\<open>OSC_IMPULSE = OSCImpulse()\<close>, the module's shared instance.\<close>

definition OSC_IMPULSE :: pyval where
  "OSC_IMPULSE = projr (model_new ''OSCImpulse'' Map.empty)"

text \<open>
  The address rule of the data model: an OSC Address Pattern is not empty and begins
  with \<^verbatim>\<open>/\<close>.
\<close>

definition address_ok :: "string \<Rightarrow> bool" where
  "address_ok a = (case a of [] \<Rightarrow> False | c # _ \<Rightarrow> c = CHR ''/'')"

definition is_osc_arg :: "pyval \<Rightarrow> bool" where
  "is_osc_arg x = (case x of PyModel c fs \<Rightarrow> c \<in> set OSCArg | _ \<Rightarrow> False)"

section \<open>The message decoder\<close>

text \<open>
  The decoder (\<^verbatim>\<open>oscparser.decode\<close>, \<^verbatim>\<open>oscparser.ctx\<close>,
  \<^verbatim>\<open>oscparser.processing\<close>) is imported by the tests and is not among the source
  files; the definitions of this section follow the specification's description of
  it (sections 4.1 to 4.3 and 7). They cover the byte cursor, the built-in type-tag
  handlers and the decoding of one message; bundles, the encoder and the framing layer
  are not modelled.
\<close>

text \<open>
  Modelled from the spec: the error taxonomy of the decoder (section 7). The
  specification requires the type-tag string to begin with a comma and names no error
  for one that does not: \<open>MissingTagComma\<close> stands for that failure.
\<close>

datatype osc_error =
    InsufficientData
  | InvalidAddress
  | UnknownTypeTag
  | UnbalancedArray
  | MalformedString
  | MissingTagComma

text \<open>
  The decoder's results are instances of the classes of \<^verbatim>\<open>types.py\<close>, written here
  as a datatype with one constructor per class. A text field holds the UTF-8 code units
  of the \<^verbatim>\<open>str\<close>; the \<^verbatim>\<open>float\<close> of \<open>OSCFloat\<close> and \<open>OSCDouble\<close> and the
  \<^verbatim>\<open>datetime\<close> of \<open>OSCTimeTag\<close> are written as the 32 or 64 bits they were read from
  (the specification does not describe their conversion).
\<close>

datatype osc_arg =
    OSCInt int
  | OSCFloat "32 word"
  | OSCString string
  | OSCBlob "byte list"
  | OSCTrue
  | OSCFalse
  | OSCNil
  | OSCInt64 int
  | OSCDouble "64 word"
  | OSCTimeTag "64 word"
  | OSCChar string
  | OSCSymbol string
  | OSCRGBA nat nat nat nat
  | OSCMidi nat nat nat nat
  | OSCImpulse
  | OSCArray "osc_arg list"

datatype osc_message = OSCMessage string "osc_arg list"

text \<open>
  Modelled from the spec: text on the wire is UTF-8 (section 4.3, "string/symbol:
  UTF-8 bytes"). \<open>valid_utf8\<close> recognises the well-formed byte sequences (no overlong
  form, no surrogate, nothing above U+10FFFF), which is what "valid text" of
  \<^verbatim>\<open>read_cstring\<close> is taken to mean.
\<close>

definition byte_of_char :: "char \<Rightarrow> byte" where
  "byte_of_char c = word_of_nat (of_char c)"

definition char_of_byte :: "byte \<Rightarrow> char" where
  "char_of_byte b = char_of (unat b)"

definition encode_text :: "string \<Rightarrow> byte list" where
  "encode_text s = map byte_of_char s"

definition is_cont :: "byte \<Rightarrow> bool" where
  "is_cont b = (0x80 \<le> b \<and> b \<le> 0xBF)"

fun valid_utf8 :: "byte list \<Rightarrow> bool" where
  "valid_utf8 [] = True"
| "valid_utf8 (a # bs) =
    (if a < 0x80 then valid_utf8 bs
     else if 0xC2 \<le> a \<and> a \<le> 0xDF then
       (case bs of b # r \<Rightarrow> is_cont b \<and> valid_utf8 r | _ \<Rightarrow> False)
     else if 0xE0 \<le> a \<and> a \<le> 0xEF then
       (case bs of
          b # c # r \<Rightarrow>
            (if a = 0xE0 then 0xA0 \<le> b \<and> b \<le> 0xBF
             else if a = 0xED then 0x80 \<le> b \<and> b \<le> 0x9F
             else is_cont b) \<and> is_cont c \<and> valid_utf8 r
        | _ \<Rightarrow> False)
     else if 0xF0 \<le> a \<and> a \<le> 0xF4 then
       (case bs of
          b # c # d # r \<Rightarrow>
            (if a = 0xF0 then 0x90 \<le> b \<and> b \<le> 0xBF
             else if a = 0xF4 then 0x80 \<le> b \<and> b \<le> 0x8F
             else is_cont b) \<and> is_cont c \<and> is_cont d \<and> valid_utf8 r
        | _ \<Rightarrow> False)
     else False)"

text \<open>
  Modelled from the spec: the byte cursor (section 4.1). The cursor is written as the
  list of the bytes not read yet; a read returns its result with the bytes left.
  \<^item> \<^verbatim>\<open>read_exact(n)\<close> "returns the next n bytes and advances the cursor; fails with
    InsufficientData if fewer than n bytes remain".
  \<^item> \<^verbatim>\<open>read_cstring()\<close> "reads bytes up to and including the first NUL, then skips any
    further NUL padding bytes up to the next multiple-of-4 boundary relative to the read
    start; fails with InsufficientData if no NUL is found before end of buffer, and with
    MalformedString if the result is not valid text".
  \<open>pad4 n\<close> is the distance from \<open>n\<close> to the next multiple of 4.
\<close>

definition pad4 :: "nat \<Rightarrow> nat" where
  "pad4 n = (4 - n mod 4) mod 4"

definition read_exact :: "nat \<Rightarrow> byte list \<Rightarrow> osc_error + (byte list \<times> byte list)" where
  "read_exact n buf =
    (if length buf < n then Inl InsufficientData else Inr (take n buf, drop n buf))"

definition read_cstring :: "byte list \<Rightarrow> osc_error + (string \<times> byte list)" where
  "read_cstring buf =
    (if 0 \<notin> set buf then Inl InsufficientData
     else
       let raw = takeWhile (\<lambda>b. b \<noteq> 0) buf;
           after = drop (length raw + 1) buf;
           padding = takeWhile (\<lambda>b. b = 0) (take (pad4 (length raw + 1)) after)
       in if valid_utf8 raw
          then Inr (map char_of_byte raw, drop (length padding) after)
          else Inl MalformedString)"

text \<open>
  Modelled from the spec: a string as the encoder writes it, "null-terminate-then-pad-to-
  multiple-of-4" (section 4.3).
\<close>

definition cstring :: "string \<Rightarrow> byte list" where
  "cstring s = encode_text s @ 0 # replicate (pad4 (length s + 1)) 0"

text \<open>
  Modelled from the spec: the payload of each atomic type (section 4.3, "all multi-byte
  integers/floats big-endian"): 4 bytes for int32, float32, RGBA and MIDI; 8 bytes for
  int64, float64 and timetag; a padded NUL-terminated string for string and symbol; for
  a blob a 4-byte length, that many bytes, and NUL padding to the next multiple of 4; for
  a char 4 bytes with the character code in the low byte; nothing for true, false, nil
  and impulse.
\<close>

definition be_int :: "byte list \<Rightarrow> int" where
  "be_int bs = foldl (\<lambda>acc b. 256 * acc + uint b) 0 bs"

definition chr_text :: "nat \<Rightarrow> string" where
  "chr_text n =
    (if n < 0x80 then [char_of n]
     else [char_of (0xC0 + n div 64), char_of (0x80 + n mod 64)])"

definition decode_blob :: "byte list \<Rightarrow> osc_error + (osc_arg \<times> byte list)" where
  "decode_blob buf =
    (case read_exact 4 buf of
       Inl e \<Rightarrow> Inl e
     | Inr (hd4, r1) \<Rightarrow>
        (case read_exact (nat (be_int hd4)) r1 of
           Inl e \<Rightarrow> Inl e
         | Inr (payload, r2) \<Rightarrow>
            (case read_exact (pad4 (nat (be_int hd4))) r2 of
               Inl e \<Rightarrow> Inl e
             | Inr (_, r3) \<Rightarrow> Inr (OSCBlob payload, r3))))"

definition fixed ::
  "nat \<Rightarrow> (byte list \<Rightarrow> osc_arg) \<Rightarrow> byte list \<Rightarrow> osc_error + (osc_arg \<times> byte list)" where
  "fixed n mk buf =
    (case read_exact n buf of Inl e \<Rightarrow> Inl e | Inr (bs, rest) \<Rightarrow> Inr (mk bs, rest))"

definition text_arg ::
  "(string \<Rightarrow> osc_arg) \<Rightarrow> byte list \<Rightarrow> osc_error + (osc_arg \<times> byte list)" where
  "text_arg mk buf =
    (case read_cstring buf of Inl e \<Rightarrow> Inl e | Inr (s, rest) \<Rightarrow> Inr (mk s, rest))"

text \<open>
  Modelled from the spec: the type-tag registry with its built-in handlers (section 4.2
  and the 15 tags of section 3), and \<^verbatim>\<open>decode_for_tag\<close>, which "looks up and invokes
  the decoder; fails with UnknownTypeTag if no handler is registered".
\<close>

definition registry :: "char \<Rightarrow> (byte list \<Rightarrow> osc_error + (osc_arg \<times> byte list)) option" where
  "registry c =
    (if c = CHR ''i'' then Some (fixed 4 (\<lambda>bs. OSCInt (sint (word_of_int (be_int bs) :: 32 word))))
     else if c = CHR ''f'' then Some (fixed 4 (\<lambda>bs. OSCFloat (word_of_int (be_int bs))))
     else if c = CHR ''s'' then Some (text_arg OSCString)
     else if c = CHR ''b'' then Some decode_blob
     else if c = CHR ''T'' then Some (fixed 0 (\<lambda>bs. OSCTrue))
     else if c = CHR ''F'' then Some (fixed 0 (\<lambda>bs. OSCFalse))
     else if c = CHR ''N'' then Some (fixed 0 (\<lambda>bs. OSCNil))
     else if c = CHR ''I'' then Some (fixed 0 (\<lambda>bs. OSCImpulse))
     else if c = CHR ''h'' then Some (fixed 8 (\<lambda>bs. OSCInt64 (sint (word_of_int (be_int bs) :: 64 word))))
     else if c = CHR ''d'' then Some (fixed 8 (\<lambda>bs. OSCDouble (word_of_int (be_int bs))))
     else if c = CHR ''t'' then Some (fixed 8 (\<lambda>bs. OSCTimeTag (word_of_int (be_int bs))))
     else if c = CHR ''c'' then Some (fixed 4 (\<lambda>bs. OSCChar (chr_text (unat (bs ! 3)))))
     else if c = CHR ''S'' then Some (text_arg OSCSymbol)
     else if c = CHR ''r'' then
       Some (fixed 4 (\<lambda>bs. OSCRGBA (unat (bs ! 0)) (unat (bs ! 1)) (unat (bs ! 2)) (unat (bs ! 3))))
     else if c = CHR ''m'' then
       Some (fixed 4 (\<lambda>bs. OSCMidi (unat (bs ! 0)) (unat (bs ! 1)) (unat (bs ! 2)) (unat (bs ! 3))))
     else None)"

definition decode_for_tag :: "char \<Rightarrow> byte list \<Rightarrow> osc_error + (osc_arg \<times> byte list)" where
  "decode_for_tag c buf = (case registry c of None \<Rightarrow> Inl UnknownTypeTag | Some h \<Rightarrow> h buf)"

text \<open>
  Modelled from the spec: the walk over the characters of the type-tag string after its
  comma (section 4.3). \<open>cur\<close> holds the arguments of the current context, \<open>opened\<close> the
  unfinished argument lists of the contexts around it, innermost first.
  \<^item> "A character that is a registered atomic tag: call decode_for_tag with the current
    cursor; the returned Argument is appended to the current argument list."
  \<^item> "[: push a new empty array context."
  \<^item> "]: pop the current array context, appending the completed Array as an Argument to
    its parent context; fails with UnbalancedArray if no array context is open."
  \<^item> "Any other character: fails with UnknownTypeTag."
  \<^item> "At end of tag-string walk, fails with UnbalancedArray if any array context remains
    open."
\<close>

fun walk ::
  "string \<Rightarrow> osc_arg list list \<Rightarrow> osc_arg list \<Rightarrow> byte list \<Rightarrow> osc_error + osc_arg list" where
  "walk [] opened cur buf = (if opened = [] then Inr cur else Inl UnbalancedArray)"
| "walk (c # cs) opened cur buf =
    (if registry c \<noteq> None then
       (case decode_for_tag c buf of
          Inl e \<Rightarrow> Inl e
        | Inr (v, rest) \<Rightarrow> walk cs opened (cur @ [v]) rest)
     else if c = CHR ''['' then walk cs (cur # opened) [] buf
     else if c = CHR '']'' then
       (case opened of
          [] \<Rightarrow> Inl UnbalancedArray
        | parent # outer \<Rightarrow> walk cs outer (parent @ [OSCArray cur]) buf)
     else Inl UnknownTypeTag)"

text \<open>
  Modelled from the spec: message decode (section 4.3): "read address via read_cstring();
  require it to start with /, else InvalidAddress. If no bytes remain (no type-tag string
  present), produce a Message with empty argument list. Otherwise read the type-tag string
  via read_cstring(); require it to start with a comma; then walk its characters after the
  comma to drive argument decoding".
\<close>

definition decode_message :: "byte list \<Rightarrow> osc_error + osc_message" where
  "decode_message buf =
    (case read_cstring buf of
       Inl e \<Rightarrow> Inl e
     | Inr (address, rest) \<Rightarrow>
        if \<not> address_ok address then Inl InvalidAddress
        else if rest = [] then Inr (OSCMessage address [])
        else
          (case read_cstring rest of
             Inl e \<Rightarrow> Inl e
           | Inr (tags, payload) \<Rightarrow>
              (case tags of
                 [] \<Rightarrow> Inl MissingTagComma
               | c # ts \<Rightarrow>
                  if c \<noteq> CHR '','' then Inl MissingTagComma
                  else
                    (case walk ts [] [] payload of
                       Inl e \<Rightarrow> Inl e
                     | Inr args \<Rightarrow> Inr (OSCMessage address args)))))"

text \<open>
  A type-tag string is balanced when every \<^verbatim>\<open>[\<close> has a matching \<^verbatim>\<open>]\<close> at the same
  nesting level: reading from the left with \<open>d\<close> arrays open, no \<^verbatim>\<open>]\<close> comes with none
  open, and none is open at the end.
\<close>

fun brackets_match :: "string \<Rightarrow> nat \<Rightarrow> bool" where
  "brackets_match [] d = (d = 0)"
| "brackets_match (c # cs) d =
    (if c = CHR ''['' then brackets_match cs (Suc d)
     else if c = CHR '']'' then (case d of 0 \<Rightarrow> False | Suc d' \<Rightarrow> brackets_match cs d')
     else brackets_match cs d)"

definition balanced :: "string \<Rightarrow> bool" where
  "balanced ts = brackets_match ts 0"

section \<open>Properties of the data model (\<^verbatim>\<open>types.py\<close>)\<close>

subsection \<open>Class lookup and inherited configuration\<close>




lemma find_decl_OSCChar:
  "find_decl ''OSCChar'' = Some (frozen_leaf ''OSCChar'' [(''TAG'', ''c'')] [(''value'', A_str)])"
  by (simp add: find_decl_def types_py_def frozen_leaf_def)

lemma find_decl_OSCImpulse:
  "find_decl ''OSCImpulse'' = Some (frozen_leaf ''OSCImpulse'' [(''TAG'', ''I'')] [])"
  by (simp add: find_decl_def types_py_def frozen_leaf_def)

lemma find_decl_OSCMessage:
  "find_decl ''OSCMessage'' = Some (frozen_leaf ''OSCMessage'' []
       [(''address'', A_str), (''args'', A_tuple (A_union OSCArg))])"
  by (simp add: find_decl_def types_py_def frozen_leaf_def)






subsection \<open>Construction\<close>



lemma validate_items_args:
  "list_all is_osc_arg xs \<Longrightarrow> validate_items (A_union OSCArg) xs = Inr xs"
  by (induction xs) (auto simp: is_osc_arg_def split: pyval.splits)

lemma new_impulse: "model_new ''OSCImpulse'' kw = Inr (PyModel ''OSCImpulse'' [])"
  by (simp add: model_new_def find_decl_OSCImpulse frozen_leaf_def)

text \<open>
  \<^verbatim>\<open>OSCMessage(address=a, args=xs)\<close> succeeds for every string \<open>a\<close> and every tuple
  \<open>xs\<close> of OSC argument instances, whatever other keyword arguments are passed, and the
  message holds \<open>a\<close> unchanged: the class checks nothing about the address.
\<close>

lemma OSCMessage_new_any_address:
  assumes "list_all is_osc_arg xs"
  shows "model_new ''OSCMessage'' (kw(''address'' \<mapsto> PyStr a, ''args'' \<mapsto> PyTuple xs)) =
           Inr (PyModel ''OSCMessage'' [(''address'', PyStr a), (''args'', PyTuple xs)])
       \<and> getattr (PyModel ''OSCMessage'' [(''address'', PyStr a), (''args'', PyTuple xs)])
           ''address'' = Some (PyStr a)"
  using assms
  by (simp add: model_new_def find_decl_OSCMessage frozen_leaf_def validate_items_args getattr_def)

text \<open>
  C7. The class docstring states that \<^verbatim>\<open>address\<close> is an OSC Address Pattern beginning
  with \<^verbatim>\<open>/\<close>, and the claim that no constructed message has another address. The code
  does not hold to it: \<^verbatim>\<open>OSCMessage(address="", args=())\<close> is constructed, and its
  address is empty.
\<close>

theorem OSCMessage_empty_address_constructed:
  "model_new ''OSCMessage'' [''address'' \<mapsto> PyStr '''', ''args'' \<mapsto> PyTuple []] =
     Inr (PyModel ''OSCMessage'' [(''address'', PyStr ''''), (''args'', PyTuple [])])
   \<and> getattr (PyModel ''OSCMessage'' [(''address'', PyStr ''''), (''args'', PyTuple [])])
        ''address'' = Some (PyStr '''')
   \<and> \<not> address_ok ''''"
  by (simp add: model_new_def find_decl_OSCMessage frozen_leaf_def address_ok_def getattr_def)

subsection \<open>Assignment and comparison\<close>






subsection \<open>Comparison is equality of structure\<close>











text \<open>
  C9. \<^verbatim>\<open>OSCImpulse(**kw)\<close> succeeds for every \<open>kw\<close>, and any two values it yields are
  equal to each other and to the shared instance \<^verbatim>\<open>OSC_IMPULSE\<close>, in both directions
  of \<^verbatim>\<open>==\<close>.
\<close>

theorem impulse_values_all_equal:
  "\<exists>x y. model_new ''OSCImpulse'' kw = Inr x \<and> model_new ''OSCImpulse'' kw' = Inr y
     \<and> py_eq x OSC_IMPULSE \<and> py_eq OSC_IMPULSE x \<and> py_eq x y"
  by (simp add: new_impulse OSC_IMPULSE_def)

theorem impulse_values_all_equal_witness:
  "\<exists>x y. model_new ''OSCImpulse'' Map.empty = Inr x
     \<and> model_new ''OSCImpulse'' [''ignored'' \<mapsto> PyInt 1] = Inr y
     \<and> py_eq x OSC_IMPULSE \<and> py_eq OSC_IMPULSE x \<and> py_eq x y"
  using impulse_values_all_equal [of Map.empty "[''ignored'' \<mapsto> PyInt 1]"] .

text \<open>
  C10. \<^verbatim>\<open>OSCChar(value=s)\<close> succeeds for every string \<open>s\<close>, of any length, and
  holds \<open>s\<close> unchanged.
\<close>

theorem OSCChar_accepts_every_string:
  "model_new ''OSCChar'' (kw(''value'' \<mapsto> PyStr s)) =
     Inr (PyModel ''OSCChar'' [(''value'', PyStr s)])"
  by (simp add: model_new_def find_decl_OSCChar frozen_leaf_def)

theorem OSCChar_accepts_every_string_witness:
  "model_new ''OSCChar'' [''value'' \<mapsto> PyStr ''''] = Inr (PyModel ''OSCChar'' [(''value'', PyStr '''')])
   \<and> model_new ''OSCChar'' [''value'' \<mapsto> PyStr ''abc''] =
       Inr (PyModel ''OSCChar'' [(''value'', PyStr ''abc'')])"
  using OSCChar_accepts_every_string [of Map.empty "''''"]
    OSCChar_accepts_every_string [of Map.empty "''abc''"]
  by simp

section \<open>Properties of the message decoder\<close>

subsection \<open>The datagrams of the test suite\<close>

text \<open>
  The model decodes the message datagrams of \<^verbatim>\<open>tests/test_oscparser.py\<close> to what the
  tests expect: \<^verbatim>\<open>_DGRAM_NO_PARAMS\<close>, \<^verbatim>\<open>_DGRAM_SWITCH_GOES_ON\<close>,
  \<^verbatim>\<open>_DGRAM_ALL_STANDARD_TYPES_OF_PARAMS\<close>, \<^verbatim>\<open>_DGRAM_ALL_NON_STANDARD_TYPES_OF_PARAMS\<close>
  and \<^verbatim>\<open>_DGRAM_COMPLEX_ARRAY_PARAMS\<close>.
\<close>

lemma dgram_no_params:
  "decode_message (encode_text ''/SYNC'' @ [0, 0, 0]) = Inr (OSCMessage ''/SYNC'' [])"
  by code_simp

lemma dgram_switch_goes_on:
  "decode_message (encode_text ''/SYNC'' @ [0, 0, 0] @ encode_text '',f'' @ [0, 0]
     @ [0x3F, 0, 0, 0]) = Inr (OSCMessage ''/SYNC'' [OSCFloat 0x3F000000])"
  by code_simp

lemma dgram_all_standard_types:
  "decode_message (encode_text ''/SYNC'' @ [0, 0, 0] @ encode_text '',ifsb'' @ [0, 0, 0]
     @ [0, 0, 0, 3] @ [0x40, 0, 0, 0] @ encode_text ''ABC'' @ [0]
     @ [0, 0, 0, 8] @ encode_text ''stuff'' @ [0, 0, 0])
   = Inr (OSCMessage ''/SYNC'' [OSCInt 3, OSCFloat 0x40000000, OSCString ''ABC'',
       OSCBlob (encode_text ''stuff'' @ [0, 0, 0])])"
  by code_simp

lemma dgram_all_non_standard_types:
  "decode_message (encode_text ''/SYNC'' @ [0, 0, 0] @ encode_text '',TFN[]th'' @ [0, 0, 0, 0]
     @ [0, 0, 0, 0, 0, 0, 0, 0] @ [0, 0, 0, 0xE8, 0xD4, 0xA5, 0x10, 0])
   = Inr (OSCMessage ''/SYNC'' [OSCTrue, OSCFalse, OSCNil, OSCArray [], OSCTimeTag 0,
       OSCInt64 1000000000000])"
  by code_simp

lemma dgram_complex_array:
  "decode_message (encode_text ''/SYNC'' @ [0, 0, 0]
     @ encode_text '',[i][[ss]][[i][i[s]]]'' @ [0, 0, 0]
     @ [0, 0, 0, 1] @ encode_text ''ABC'' @ [0] @ encode_text ''DEF'' @ [0]
     @ [0, 0, 0, 2] @ [0, 0, 0, 3] @ encode_text ''GHI'' @ [0])
   = Inr (OSCMessage ''/SYNC''
       [OSCArray [OSCInt 1],
        OSCArray [OSCArray [OSCString ''ABC'', OSCString ''DEF'']],
        OSCArray [OSCArray [OSCInt 2], OSCArray [OSCInt 3, OSCArray [OSCString ''GHI'']]]])"
  by code_simp

subsection \<open>Reading a string back\<close>

lemma char_of_byte_of_char [simp]: "char_of_byte (byte_of_char c) = c"
  by (simp add: char_of_byte_def byte_of_char_def unat_of_nat)

lemma char_of_byte_0: "char_of_byte 0 = CHR 0x00"
  by (simp add: char_of_byte_def char_of_def)

lemma byte_of_char_0: "byte_of_char (CHR 0x00) = 0"
  by (simp add: byte_of_char_def)

lemma byte_of_char_eq_0: "byte_of_char c = 0 \<longleftrightarrow> c = CHR 0x00"
proof
  assume "byte_of_char c = 0"
  then have "char_of_byte (byte_of_char c) = char_of_byte 0" by simp
  then show "c = CHR 0x00" by (simp add: char_of_byte_0)
next
  assume "c = CHR 0x00"
  then show "byte_of_char c = 0" by (simp add: byte_of_char_0)
qed

lemma encode_text_nul_free: "CHR 0x00 \<notin> set s \<Longrightarrow> 0 \<notin> set (encode_text s)"
  by (auto simp: encode_text_def byte_of_char_eq_0)

lemma decode_encode_text: "map char_of_byte (encode_text s) = s"
  by (induction s) (simp_all add: encode_text_def)

lemma takeWhile_replicate_all: "takeWhile (\<lambda>b. b = x) (replicate n x) = replicate n x"
  by (induction n) simp_all

text \<open>
  A string without NUL whose bytes are valid text is read back from its padded encoding,
  and the cursor stops right after the padding.
\<close>

lemma read_cstring_cstring:
  assumes "CHR 0x00 \<notin> set s" "valid_utf8 (encode_text s)"
  shows "read_cstring (cstring s @ rest) = Inr (s, rest)"
proof -
  let ?raw = "encode_text s"
  let ?p = "pad4 (length s + 1)"
  have nf: "0 \<notin> set ?raw" using assms(1) by (rule encode_text_nul_free)
  have len: "length ?raw = length s" by (simp add: encode_text_def)
  have tw: "takeWhile (\<lambda>b. b \<noteq> 0) (cstring s @ rest) = ?raw"
  proof -
    have "\<forall>x \<in> set ?raw. x \<noteq> 0" using nf by metis
    then show ?thesis by (simp add: cstring_def takeWhile_tail)
  qed
  have after: "drop (length ?raw + 1) (cstring s @ rest) = replicate ?p 0 @ rest"
    by (simp add: cstring_def)
  have pad: "takeWhile (\<lambda>b. b = 0) (take ?p (replicate ?p 0 @ rest)) = replicate ?p 0"
    by (simp add: takeWhile_replicate_all)
  have mem: "0 \<in> set (cstring s @ rest)" by (simp add: cstring_def)
  show ?thesis
    unfolding read_cstring_def Let_def tw after
    using mem assms(2) pad len by (simp add: decode_encode_text)
qed

text \<open>Every message that message decode yields has an address that begins with \<^verbatim>\<open>/\<close>.\<close>

lemma decoded_address_ok: "decode_message buf = Inr (OSCMessage a args) \<Longrightarrow> address_ok a"
  by (auto simp: decode_message_def split: sum.splits prod.splits if_splits list.splits)

text \<open>
  C5. Let the buffer hold exactly one padded string: an address that begins with \<^verbatim>\<open>/\<close>,
  contains no NUL and is valid text, its NUL terminator and the NUL padding to a multiple
  of 4. Message decode succeeds and yields the message with that address and no argument.
\<close>

theorem message_without_type_tags:
  assumes "address_ok a" and "CHR 0x00 \<notin> set a" and "valid_utf8 (encode_text a)"
  shows "decode_message (cstring a) = Inr (OSCMessage a [])"
  using read_cstring_cstring [OF assms(2,3), of "[]"] assms(1)
  by (simp add: decode_message_def)

theorem message_without_type_tags_witness:
  "address_ok ''/SYNC'' \<and> CHR 0x00 \<notin> set ''/SYNC'' \<and> valid_utf8 (encode_text ''/SYNC'')
   \<and> cstring ''/SYNC'' = encode_text ''/SYNC'' @ [0, 0, 0]
   \<and> decode_message (cstring ''/SYNC'') = Inr (OSCMessage ''/SYNC'' [])"
proof -
  have a: "address_ok ''/SYNC''" by (simp add: address_ok_def)
  have n: "CHR 0x00 \<notin> set ''/SYNC''" by simp
  have v: "valid_utf8 (encode_text ''/SYNC'')" by code_simp
  have c: "cstring ''/SYNC'' = encode_text ''/SYNC'' @ [0, 0, 0]" by code_simp
  from message_without_type_tags [OF a n v] a n v c show ?thesis by simp
qed

subsection \<open>Array brackets\<close>

lemma registry_brackets: "registry CHR ''['' = None" "registry CHR '']'' = None"
  by (simp_all add: registry_def)

text \<open>No built-in handler fails with \<open>UnbalancedArray\<close>.\<close>

lemma read_exact_error: "read_exact n buf = Inl e \<Longrightarrow> e = InsufficientData"
  by (auto simp: read_exact_def split: if_splits)

lemma read_cstring_error: "read_cstring buf = Inl e \<Longrightarrow> e \<noteq> UnbalancedArray"
  by (auto simp: read_cstring_def Let_def split: if_splits)

lemma fixed_error: "fixed n mk buf = Inl e \<Longrightarrow> e \<noteq> UnbalancedArray"
  by (auto simp: fixed_def split: sum.splits dest: read_exact_error)

lemma text_arg_error: "text_arg mk buf = Inl e \<Longrightarrow> e \<noteq> UnbalancedArray"
  by (auto simp: text_arg_def split: sum.splits dest: read_cstring_error)

lemma decode_blob_error: "decode_blob buf = Inl e \<Longrightarrow> e \<noteq> UnbalancedArray"
  by (auto simp: decode_blob_def split: sum.splits prod.splits dest: read_exact_error)

lemma registry_error:
  "registry c = Some h \<Longrightarrow> h buf = Inl e \<Longrightarrow> e \<noteq> UnbalancedArray"
  unfolding registry_def
  by (auto split: if_splits dest: fixed_error text_arg_error decode_blob_error)

text \<open>
  With as many arrays open as the brackets still to come will close, the walk does not
  fail with \<open>UnbalancedArray\<close>, whatever the payload bytes are.
\<close>

lemma walk_balanced:
  "brackets_match ts (length opened) \<Longrightarrow> walk ts opened cur buf \<noteq> Inl UnbalancedArray"
proof (induction ts arbitrary: opened cur buf)
  case Nil
  then show ?case by simp
next
  case (Cons c cs)
  show ?case
  proof (cases "registry c")
    case (Some h)
    then have nb: "c \<noteq> CHR ''[''" "c \<noteq> CHR '']''" using registry_brackets by auto
    with Cons.prems have bm: "brackets_match cs (length opened)" by simp
    show ?thesis
    proof (cases "h buf")
      case (Inl e)
      with Some have "e \<noteq> UnbalancedArray" by (rule registry_error)
      with Inl Some show ?thesis by (simp add: decode_for_tag_def)
    next
      case (Inr r)
      obtain v rest where "r = (v, rest)" by (cases r)
      with Inr Some Cons.IH [OF bm] show ?thesis by (simp add: decode_for_tag_def)
    qed
  next
    case None
    show ?thesis
    proof (cases "c = CHR ''[''")
      case True
      with Cons.prems have "brackets_match cs (length (cur # opened))" by simp
      from Cons.IH [OF this] None True show ?thesis by simp
    next
      case nopen: False
      show ?thesis
      proof (cases "c = CHR '']''")
        case True
        with Cons.prems nopen obtain parent outer where
          o: "opened = parent # outer" and "brackets_match cs (length outer)"
          by (cases opened) auto
        from Cons.IH [OF this(2)] None nopen True o show ?thesis by simp
      next
        case False
        with None nopen show ?thesis by simp
      qed
    qed
  qed
qed

lemma unmatched_close_example:
  "decode_message (cstring ''/a'' @ cstring '',i]'' @ [0, 0, 0, 1]) = Inl UnbalancedArray"
  by code_simp

lemma unclosed_array_example:
  "decode_message (cstring ''/a'' @ cstring '',[i'' @ [0, 0, 0, 1]) = Inl UnbalancedArray"
  by code_simp

text \<open>
  C6. In the walk over the type tags, a \<^verbatim>\<open>]\<close> met while no array is open fails with
  \<open>UnbalancedArray\<close>; so does the end of the tags while an array is open; and when the
  tags are balanced the walk does not fail with \<open>UnbalancedArray\<close>, nor does the decoding
  of a message whose type-tag string is a comma followed by balanced tags.
\<close>

theorem unbalanced_array_error:
  "walk (CHR '']'' # cs) [] cur buf = Inl UnbalancedArray
   \<and> (opened \<noteq> [] \<longrightarrow> walk [] opened cur buf = Inl UnbalancedArray)
   \<and> (balanced ts \<longrightarrow> walk ts [] [] buf \<noteq> Inl UnbalancedArray)
   \<and> (read_cstring msg = Inr (a, rest) \<and> read_cstring rest = Inr (CHR '','' # ts, payload)
        \<and> balanced ts \<longrightarrow> decode_message msg \<noteq> Inl UnbalancedArray)"
proof -
  have b: "balanced ts \<Longrightarrow> walk ts [] [] p \<noteq> Inl UnbalancedArray" for p
    using walk_balanced [of ts "[]"] by (simp add: balanced_def)
  have "decode_message msg \<noteq> Inl UnbalancedArray"
    if "read_cstring msg = Inr (a, rest)" "read_cstring rest = Inr (CHR '','' # ts, payload)"
      "balanced ts"
    using that b [OF that(3), of payload]
    by (auto simp: decode_message_def split: sum.splits)
  with b show ?thesis by (simp add: registry_brackets)
qed

theorem unbalanced_array_error_witness:
  "walk (CHR '']'' # ''i'') [] [OSCInt 1] [0, 0, 0, 2] = Inl UnbalancedArray
   \<and> walk [] [[OSCInt 1]] [OSCInt 1] [0, 0, 0, 2] = Inl UnbalancedArray
   \<and> balanced ''[i][[ss]]''
   \<and> read_cstring (cstring ''/a'' @ cstring '',[i][[ss]]'' @ [0, 0, 0, 1] @ cstring ''b'' @ cstring ''c'')
       = Inr (''/a'', cstring '',[i][[ss]]'' @ [0, 0, 0, 1] @ cstring ''b'' @ cstring ''c'')
   \<and> read_cstring (cstring '',[i][[ss]]'' @ [0, 0, 0, 1] @ cstring ''b'' @ cstring ''c'')
       = Inr (CHR '','' # ''[i][[ss]]'', [0, 0, 0, 1] @ cstring ''b'' @ cstring ''c'')
   \<and> decode_message (cstring ''/a'' @ cstring '',[i][[ss]]'' @ [0, 0, 0, 1] @ cstring ''b'' @ cstring ''c'')
       \<noteq> Inl UnbalancedArray"
proof -
  let ?payload = "[0, 0, 0, 1] @ cstring ''b'' @ cstring ''c''"
  let ?rest = "cstring '',[i][[ss]]'' @ ?payload"
  have b: "balanced ''[i][[ss]]''" by (simp add: balanced_def)
  have r1: "read_cstring (cstring ''/a'' @ ?rest) = Inr (''/a'', ?rest)"
    by (rule read_cstring_cstring) (simp, code_simp)
  have r2: "read_cstring ?rest = Inr (CHR '','' # ''[i][[ss]]'', ?payload)"
    using read_cstring_cstring [of "'',[i][[ss]]''" ?payload] by (simp, code_simp)
  from unbalanced_array_error
         [of "''i''" "[OSCInt 1]" "[0, 0, 0, 2]" "[[OSCInt 1]]" "''[i][[ss]]''"
             "cstring ''/a'' @ ?rest" "''/a''" ?rest ?payload]
    b r1 r2
  show ?thesis by simp
qed

end
